theory Spec2Isabelle
  imports Main
begin

section \<open>Data model: nodes in a store, trees as a root pointer\<close>

text \<open>
  The trees of \<^verbatim>\<open>tree.hpp\<close> are linked nodes that the operations rewrite in place,
  and several properties depend on which node a \<^verbatim>\<open>parent\<close> or child pointer
  names. The model is therefore an explicit store: an address is a natural number, a
  pointer is an optional address (\<open>None\<close> is \<^verbatim>\<open>nullptr\<close>), and the store maps
  the addresses of live nodes to their fields. Keys and heights are \<^verbatim>\<open>int\<close> in the
  source; they are only compared and incremented by one, so they are modelled as
  unbounded integers.
\<close>

type_synonym addr = nat
type_synonym ptr = "addr option"

record node =
  key :: int
  height :: int
  left :: ptr
  right :: ptr
  parent :: ptr

text \<open>
  A tree object holds the \<^verbatim>\<open>root\<close> pointer. The store and the next address that
  \<^verbatim>\<open>new\<close> hands out are carried with it, so that every operation is a function
  from one value of this record to the next.
\<close>

record tree =
  heap :: "addr \<rightharpoonup> node"
  root :: ptr
  fresh :: addr

text \<open>
  Dereferencing \<^verbatim>\<open>nullptr\<close> or a node that has been deleted is undefined behaviour
  in the source; the model makes both a fault.
\<close>

datatype fault = NullDeref | UseAfterFree

definition bind_res :: "fault + 'a \<Rightarrow> ('a \<Rightarrow> fault + 'b) \<Rightarrow> fault + 'b" where
  "bind_res m f = (case m of Inl e \<Rightarrow> Inl e | Inr x \<Rightarrow> f x)"

text \<open>\<open>load t p\<close> reads the node \<^verbatim>\<open>*p\<close>; \<open>upd t p f\<close> writes fields of \<^verbatim>\<open>*p\<close>.\<close>

definition load :: "tree \<Rightarrow> ptr \<Rightarrow> fault + node" where
  "load t p =
     (case p of
        None \<Rightarrow> Inl NullDeref
      | Some a \<Rightarrow> (case heap t a of None \<Rightarrow> Inl UseAfterFree | Some n \<Rightarrow> Inr n))"

definition upd :: "tree \<Rightarrow> ptr \<Rightarrow> (node \<Rightarrow> node) \<Rightarrow> fault + tree" where
  "upd t p f =
     (case p of
        None \<Rightarrow> Inl NullDeref
      | Some a \<Rightarrow>
          (case heap t a of
             None \<Rightarrow> Inl UseAfterFree
           | Some n \<Rightarrow> Inr (t\<lparr>heap := (heap t)(a \<mapsto> f n)\<rparr>)))"

text \<open>
  Modelled from the spec: the node constructor \<^verbatim>\<open>NodeT(key)\<close> is declared in
  \<^verbatim>\<open>node.hpp\<close>, which is not among the sources. The specification says that a
  new node has height 1, no children and no parent until the caller sets one.
\<close>

definition new_node :: "tree \<Rightarrow> int \<Rightarrow> ptr \<times> tree" where
  "new_node t k =
     (Some (fresh t),
      t\<lparr>heap := (heap t)(fresh t \<mapsto>
            \<lparr>key = k, height = 1, left = None, right = None, parent = None\<rparr>),
        fresh := Suc (fresh t)\<rparr>)"

text \<open>\<^verbatim>\<open>delete node\<close>: the address is no longer live.\<close>

definition delete_node :: "tree \<Rightarrow> ptr \<Rightarrow> tree" where
  "delete_node t p = (case p of None \<Rightarrow> t | Some a \<Rightarrow> t\<lparr>heap := (heap t)(a := None)\<rparr>)"

definition empty_tree :: tree where
  "empty_tree = \<lparr>heap = Map.empty, root = None, fresh = 0\<rparr>"

section \<open>BinarySearchTree: heights\<close>

definition getHeight :: "tree \<Rightarrow> ptr \<Rightarrow> fault + int" where
  "getHeight t p =
     (case p of None \<Rightarrow> Inr 0 | Some a \<Rightarrow> bind_res (load t p) (\<lambda>n. Inr (height n)))"

definition getBalance :: "tree \<Rightarrow> ptr \<Rightarrow> fault + int" where
  "getBalance t p =
     (case p of
        None \<Rightarrow> Inr 0
      | Some a \<Rightarrow>
          bind_res (load t p) (\<lambda>n.
          bind_res (getHeight t (left n)) (\<lambda>hl.
          bind_res (getHeight t (right n)) (\<lambda>hr. Inr (hl - hr)))))"

definition updateHeight :: "tree \<Rightarrow> ptr \<Rightarrow> fault + tree" where
  "updateHeight t p =
     (case p of
        None \<Rightarrow> Inr t
      | Some a \<Rightarrow>
          bind_res (load t p) (\<lambda>n.
          bind_res (getHeight t (left n)) (\<lambda>hl.
          bind_res (getHeight t (right n)) (\<lambda>hr.
          upd t p (\<lambda>m. m\<lparr>height := max hl hr + 1\<rparr>)))))"

section \<open>BinarySearchTree: rotations\<close>

text \<open>
  The step "update parent's pointer to this subtree" of both rotations: it reads
  \<^verbatim>\<open>y->parent\<close> as it is at that point of the function.
\<close>

definition relink_parent :: "tree \<Rightarrow> ptr \<Rightarrow> ptr \<Rightarrow> fault + tree" where
  "relink_parent t z y =
     bind_res (load t y) (\<lambda>yn.
       if parent yn = None then Inr (t\<lparr>root := y\<rparr>)
       else
         bind_res (load t (parent yn)) (\<lambda>pn.
           if left pn = z then upd t (parent yn) (\<lambda>m. m\<lparr>left := y\<rparr>)
           else upd t (parent yn) (\<lambda>m. m\<lparr>right := y\<rparr>)))"

definition rotateLeft :: "tree \<Rightarrow> ptr \<Rightarrow> fault + ptr \<times> tree" where
  "rotateLeft t z =
     bind_res (load t z) (\<lambda>zn. let y = right zn in
     bind_res (load t y) (\<lambda>yn. let T2 = left yn in
     bind_res (upd t z (\<lambda>m. m\<lparr>right := T2\<rparr>)) (\<lambda>t1.
     bind_res (upd t1 z (\<lambda>m. m\<lparr>parent := y\<rparr>)) (\<lambda>t2.
     bind_res (if T2 \<noteq> None then upd t2 T2 (\<lambda>m. m\<lparr>parent := z\<rparr>) else Inr t2) (\<lambda>t3.
     bind_res (relink_parent t3 z y) (\<lambda>t4.
     bind_res (updateHeight t4 z) (\<lambda>t5.
     bind_res (updateHeight t5 y) (\<lambda>t6. Inr (y, t6)))))))))"

definition rotateRight :: "tree \<Rightarrow> ptr \<Rightarrow> fault + ptr \<times> tree" where
  "rotateRight t z =
     bind_res (load t z) (\<lambda>zn. let y = left zn in
     bind_res (load t y) (\<lambda>yn. let T3 = right yn in
     bind_res (upd t z (\<lambda>m. m\<lparr>left := T3\<rparr>)) (\<lambda>t1.
     bind_res (upd t1 z (\<lambda>m. m\<lparr>parent := y\<rparr>)) (\<lambda>t2.
     bind_res (if T3 \<noteq> None then upd t2 T3 (\<lambda>m. m\<lparr>parent := z\<rparr>) else Inr t2) (\<lambda>t3.
     bind_res (relink_parent t3 z y) (\<lambda>t4.
     bind_res (updateHeight t4 z) (\<lambda>t5.
     bind_res (updateHeight t5 y) (\<lambda>t6. Inr (y, t6)))))))))"

section \<open>AVLTree: balance\<close>

text \<open>The expressions \<^verbatim>\<open>node->left->key\<close> and \<^verbatim>\<open>node->right->key\<close>.\<close>

definition left_key :: "tree \<Rightarrow> ptr \<Rightarrow> fault + int" where
  "left_key t p = bind_res (load t p) (\<lambda>n. bind_res (load t (left n)) (\<lambda>l. Inr (key l)))"

definition right_key :: "tree \<Rightarrow> ptr \<Rightarrow> fault + int" where
  "right_key t p = bind_res (load t p) (\<lambda>n. bind_res (load t (right n)) (\<lambda>r. Inr (key r)))"

text \<open>
  The four tests of \<^verbatim>\<open>AVLTree::balance\<close> in the order of the source. The
  operator \<^verbatim>\<open>&&\<close> evaluates its right operand only when the left one holds, so the
  child is dereferenced only then.
\<close>

definition balance :: "tree \<Rightarrow> ptr \<Rightarrow> int \<Rightarrow> fault + ptr \<times> tree" where
  "balance t p k =
     bind_res (getBalance t p) (\<lambda>b.
     bind_res (if b > 1 then bind_res (left_key t p) (\<lambda>lk. Inr (k < lk)) else Inr False) (\<lambda>c1.
       if c1 then rotateRight t p
       else
     bind_res (if b < -1 then bind_res (right_key t p) (\<lambda>rk. Inr (k < rk)) else Inr False) (\<lambda>c2.
       if c2 then rotateLeft t p
       else
     bind_res (if b > 1 then bind_res (left_key t p) (\<lambda>lk. Inr (k > lk)) else Inr False) (\<lambda>c3.
       if c3 then
         bind_res (load t p) (\<lambda>n.
         bind_res (rotateLeft t (left n)) (\<lambda>(y, t1).
         bind_res (upd t1 p (\<lambda>m. m\<lparr>left := y\<rparr>)) (\<lambda>t2. rotateRight t2 p)))
       else
     bind_res (if b < -1 then bind_res (right_key t p) (\<lambda>rk. Inr (k < rk)) else Inr False) (\<lambda>c4.
       if c4 then
         bind_res (load t p) (\<lambda>n.
         bind_res (rotateRight t (right n)) (\<lambda>(y, t1).
         bind_res (upd t1 p (\<lambda>m. m\<lparr>right := y\<rparr>)) (\<lambda>t2. rotateLeft t2 p)))
       else Inr (p, t))))))"

section \<open>Insertion\<close>

text \<open>
  The branch for an empty position, common to both classes: allocate, set the parent,
  and make the node the root when the tree has none.
\<close>

definition create_at :: "tree \<Rightarrow> int \<Rightarrow> ptr \<Rightarrow> fault + ptr \<times> tree" where
  "create_at t k par =
     (let (newNode, t1) = new_node t k in
      bind_res (upd t1 newNode (\<lambda>m. m\<lparr>parent := par\<rparr>)) (\<lambda>t2.
        Inr (newNode, if root t2 = None then t2\<lparr>root := newNode\<rparr> else t2)))"

text \<open>
  \<^verbatim>\<open>node->left = r; node->left->parent = node;\<close> and its mirror image, run after
  the recursive call has returned \<open>r\<close>.
\<close>

definition attach_left :: "tree \<Rightarrow> ptr \<Rightarrow> ptr \<Rightarrow> fault + tree" where
  "attach_left t p r =
     bind_res (upd t p (\<lambda>m. m\<lparr>left := r\<rparr>)) (\<lambda>t1.
     bind_res (load t1 p) (\<lambda>n. upd t1 (left n) (\<lambda>m. m\<lparr>parent := p\<rparr>)))"

definition attach_right :: "tree \<Rightarrow> ptr \<Rightarrow> ptr \<Rightarrow> fault + tree" where
  "attach_right t p r =
     bind_res (upd t p (\<lambda>m. m\<lparr>right := r\<rparr>)) (\<lambda>t1.
     bind_res (load t1 p) (\<lambda>n. upd t1 (right n) (\<lambda>m. m\<lparr>parent := p\<rparr>)))"

text \<open>
  The recursion follows child pointers of the store, which need not end; a call that
  does not return is \<open>None\<close>.
\<close>

partial_function (option)
  BST_insertNode :: "tree \<Rightarrow> ptr \<Rightarrow> int \<Rightarrow> ptr \<Rightarrow> (fault + ptr \<times> tree) option"
where
  "BST_insertNode t p k par =
     (case p of
        None \<Rightarrow> Some (create_at t k par)
      | Some a \<Rightarrow>
          (case load t p of
             Inl e \<Rightarrow> Some (Inl e)
           | Inr n \<Rightarrow>
               if k < key n then
                 Option.bind (BST_insertNode t (left n) k p) (\<lambda>res.
                   Some (bind_res res (\<lambda>(r, t1).
                         bind_res (attach_left t1 p r) (\<lambda>t2. Inr (p, t2)))))
               else
                 Option.bind (BST_insertNode t (right n) k p) (\<lambda>res.
                   Some (bind_res res (\<lambda>(r, t1).
                         bind_res (attach_right t1 p r) (\<lambda>t2. Inr (p, t2)))))))"

partial_function (option)
  AVL_insertNode :: "tree \<Rightarrow> ptr \<Rightarrow> int \<Rightarrow> ptr \<Rightarrow> (fault + ptr \<times> tree) option"
where
  "AVL_insertNode t p k par =
     (case p of
        None \<Rightarrow> Some (create_at t k par)
      | Some a \<Rightarrow>
          (case load t p of
             Inl e \<Rightarrow> Some (Inl e)
           | Inr n \<Rightarrow>
               if k < key n then
                 Option.bind (AVL_insertNode t (left n) k p) (\<lambda>res.
                   Some (bind_res res (\<lambda>(r, t1).
                         bind_res (attach_left t1 p r) (\<lambda>t2.
                         bind_res (updateHeight t2 p) (\<lambda>t3. balance t3 p k)))))
               else if k > key n then
                 Option.bind (AVL_insertNode t (right n) k p) (\<lambda>res.
                   Some (bind_res res (\<lambda>(r, t1).
                         bind_res (attach_right t1 p r) (\<lambda>t2.
                         bind_res (updateHeight t2 p) (\<lambda>t3. balance t3 p k)))))
               else Some (Inr (p, t))))"

text \<open>\<^verbatim>\<open>root = insertNode(root, key, nullptr)\<close>\<close>

definition BST_insert :: "tree \<Rightarrow> int \<Rightarrow> (fault + tree) option" where
  "BST_insert t k =
     Option.bind (BST_insertNode t (root t) k None) (\<lambda>res.
       Some (bind_res res (\<lambda>(r, t1). Inr (t1\<lparr>root := r\<rparr>))))"

definition AVL_insert :: "tree \<Rightarrow> int \<Rightarrow> (fault + tree) option" where
  "AVL_insert t k =
     Option.bind (AVL_insertNode t (root t) k None) (\<lambda>res.
       Some (bind_res res (\<lambda>(r, t1). Inr (t1\<lparr>root := r\<rparr>))))"

section \<open>Search\<close>

partial_function (option)
  searchNode :: "tree \<Rightarrow> ptr \<Rightarrow> int \<Rightarrow> (fault + ptr) option"
where
  "searchNode t p k =
     (case p of
        None \<Rightarrow> Some (Inr p)
      | Some a \<Rightarrow>
          (case load t p of
             Inl e \<Rightarrow> Some (Inl e)
           | Inr n \<Rightarrow>
               if key n = k then Some (Inr p)
               else if k < key n then searchNode t (left n) k
               else searchNode t (right n) k))"

definition search :: "tree \<Rightarrow> int \<Rightarrow> (fault + ptr) option" where
  "search t k = searchNode t (root t) k"

section \<open>Minimum, maximum, successor\<close>

text \<open>
  Both loops dereference their argument before any test, as the source does:
  \<^verbatim>\<open>while (node->left != nullptr) node = node->left;\<close>
\<close>

partial_function (option)
  minimumNode :: "tree \<Rightarrow> ptr \<Rightarrow> (fault + ptr) option"
where
  "minimumNode t p =
     (case load t p of
        Inl e \<Rightarrow> Some (Inl e)
      | Inr n \<Rightarrow> if left n \<noteq> None then minimumNode t (left n) else Some (Inr p))"

partial_function (option)
  maximumNode :: "tree \<Rightarrow> ptr \<Rightarrow> (fault + ptr) option"
where
  "maximumNode t p =
     (case load t p of
        Inl e \<Rightarrow> Some (Inl e)
      | Inr n \<Rightarrow> if right n \<noteq> None then maximumNode t (right n) else Some (Inr p))"

definition minimum :: "tree \<Rightarrow> (fault + ptr) option" where
  "minimum t = minimumNode t (root t)"

definition maximum :: "tree \<Rightarrow> (fault + ptr) option" where
  "maximum t = maximumNode t (root t)"

text \<open>
  The loop of \<^verbatim>\<open>successorNode\<close>, on the pair of its variables \<^verbatim>\<open>node\<close> and
  \<^verbatim>\<open>parent\<close>; it yields the value of \<^verbatim>\<open>parent\<close> on exit.
\<close>

partial_function (option)
  successor_walk :: "tree \<Rightarrow> ptr \<Rightarrow> ptr \<Rightarrow> (fault + ptr) option"
where
  "successor_walk t nd par =
     (case par of
        None \<Rightarrow> Some (Inr par)
      | Some a \<Rightarrow>
          (case load t par of
             Inl e \<Rightarrow> Some (Inl e)
           | Inr pn \<Rightarrow>
               if right pn = nd then successor_walk t par (parent pn)
               else Some (Inr par)))"

definition successorNode :: "tree \<Rightarrow> ptr \<Rightarrow> (fault + ptr) option" where
  "successorNode t p =
     (case p of
        None \<Rightarrow> Some (Inr None)
      | Some a \<Rightarrow>
          (case load t p of
             Inl e \<Rightarrow> Some (Inl e)
           | Inr n \<Rightarrow>
               if right n \<noteq> None then minimumNode t (right n)
               else
                 Option.bind (successor_walk t p (parent n)) (\<lambda>res.
                   Some (bind_res res (\<lambda>par. if par = None then Inr p else Inr par)))))"

definition successor :: "tree \<Rightarrow> int \<Rightarrow> (fault + ptr) option" where
  "successor t k =
     Option.bind (search t k) (\<lambda>res.
       case res of Inl e \<Rightarrow> Some (Inl e) | Inr nd \<Rightarrow> successorNode t nd)"

section \<open>Deletion\<close>

definition transplant :: "tree \<Rightarrow> ptr \<Rightarrow> ptr \<Rightarrow> fault + tree" where
  "transplant t u v =
     bind_res (load t u) (\<lambda>un.
     bind_res
       (if parent un = None then Inr (t\<lparr>root := v\<rparr>)
        else
          bind_res (load t (parent un)) (\<lambda>pn.
            if u = left pn then upd t (parent un) (\<lambda>m. m\<lparr>left := v\<rparr>)
            else upd t (parent un) (\<lambda>m. m\<lparr>right := v\<rparr>)))
       (\<lambda>t1.
          if v \<noteq> None then
            bind_res (load t1 u) (\<lambda>un1. upd t1 v (\<lambda>m. m\<lparr>parent := parent un1\<rparr>))
          else Inr t1))"

text \<open>
  The two-children case of \<^verbatim>\<open>BinarySearchTree::deleteNode\<close> after the successor
  \<open>sec\<close> has been found.
\<close>

definition BST_splice :: "tree \<Rightarrow> ptr \<Rightarrow> ptr \<Rightarrow> fault + tree" where
  "BST_splice t nd sec =
     bind_res (load t sec) (\<lambda>sn.
     bind_res
       (if parent sn \<noteq> nd then
          bind_res (transplant t sec (right sn)) (\<lambda>t1.
          bind_res (load t1 nd) (\<lambda>n1.
          bind_res (upd t1 sec (\<lambda>m. m\<lparr>right := right n1\<rparr>)) (\<lambda>t2.
          bind_res (load t2 sec) (\<lambda>sn2.
          upd t2 (right sn2) (\<lambda>m. m\<lparr>parent := sec\<rparr>)))))
        else Inr t)
       (\<lambda>t3.
          bind_res (transplant t3 nd sec) (\<lambda>t4.
          bind_res (load t4 nd) (\<lambda>n4.
          bind_res (upd t4 sec (\<lambda>m. m\<lparr>left := left n4\<rparr>)) (\<lambda>t5.
          bind_res (load t5 sec) (\<lambda>sn5.
          upd t5 (left sn5) (\<lambda>m. m\<lparr>parent := sec\<rparr>)))))))"

text \<open>
  \<^verbatim>\<open>BinarySearchTree::deleteNode(root, node)\<close>: the only test before \<^verbatim>\<open>node\<close>
  is dereferenced is the one on the parameter \<^verbatim>\<open>root\<close>.
\<close>

definition BST_deleteNode :: "tree \<Rightarrow> ptr \<Rightarrow> ptr \<Rightarrow> (fault + ptr \<times> tree) option" where
  "BST_deleteNode t r nd =
     (if r = None then Some (Inr (r, t))
      else
        (case load t nd of
           Inl e \<Rightarrow> Some (Inl e)
         | Inr n \<Rightarrow>
             if left n = None then
               Some (bind_res (transplant t nd (right n)) (\<lambda>t1. Inr (r, t1)))
             else if right n = None then
               Some (bind_res (transplant t nd (left n)) (\<lambda>t1. Inr (r, t1)))
             else
               Option.bind (minimumNode t (right n)) (\<lambda>res.
                 Some (bind_res res (\<lambda>sec.
                       bind_res (BST_splice t nd sec) (\<lambda>t1. Inr (r, t1)))))))"

definition BST_remove :: "tree \<Rightarrow> int \<Rightarrow> (fault + tree) option" where
  "BST_remove t k =
     Option.bind (searchNode t (root t) k) (\<lambda>res.
       case res of
         Inl e \<Rightarrow> Some (Inl e)
       | Inr nd \<Rightarrow>
           Option.bind (BST_deleteNode t (root t) nd) (\<lambda>res1.
             Some (bind_res res1 (\<lambda>(r, t1). Inr t1))))"

text \<open>
  The two-children case of \<^verbatim>\<open>AVLTree::deleteNode\<close>; it yields
  \<^verbatim>\<open>rebalanceStart\<close> with the new state. Here the parent links of the moved
  subtrees are written only when those subtrees exist.
\<close>

definition AVL_splice :: "tree \<Rightarrow> ptr \<Rightarrow> ptr \<Rightarrow> fault + ptr \<times> tree" where
  "AVL_splice t nd sec =
     bind_res (load t sec) (\<lambda>sn.
     bind_res
       (if parent sn \<noteq> nd then
          bind_res (transplant t sec (right sn)) (\<lambda>t1.
          bind_res (load t1 nd) (\<lambda>n1.
          bind_res (upd t1 sec (\<lambda>m. m\<lparr>right := right n1\<rparr>)) (\<lambda>t2.
          bind_res (load t2 sec) (\<lambda>sn2.
          bind_res
            (if right sn2 \<noteq> None then upd t2 (right sn2) (\<lambda>m. m\<lparr>parent := sec\<rparr>)
             else Inr t2)
            (\<lambda>t3. Inr (parent sn, t3))))))
        else Inr (sec, t))
       (\<lambda>(rebalanceStart, t3).
          bind_res (transplant t3 nd sec) (\<lambda>t4.
          bind_res (load t4 nd) (\<lambda>n4.
          bind_res (upd t4 sec (\<lambda>m. m\<lparr>left := left n4\<rparr>)) (\<lambda>t5.
          bind_res (load t5 sec) (\<lambda>sn5.
          bind_res
            (if left sn5 \<noteq> None then upd t5 (left sn5) (\<lambda>m. m\<lparr>parent := sec\<rparr>)
             else Inr t5)
            (\<lambda>t6. Inr (rebalanceStart, delete_node t6 nd))))))))"

text \<open>
  The structural part of \<^verbatim>\<open>AVLTree::deleteNode\<close> for a node that is not null:
  it yields the node at which rebalancing starts.
\<close>

definition AVL_unlink :: "tree \<Rightarrow> ptr \<Rightarrow> (fault + ptr \<times> tree) option" where
  "AVL_unlink t nd =
     (case load t nd of
        Inl e \<Rightarrow> Some (Inl e)
      | Inr n \<Rightarrow>
          if left n = None \<and> right n = None then
            Some (bind_res (transplant t nd None) (\<lambda>t1.
                  Inr (parent n, delete_node t1 nd)))
          else if left n = None then
            Some (bind_res (transplant t nd (right n)) (\<lambda>t1.
                  Inr (right n, delete_node t1 nd)))
          else if right n = None then
            Some (bind_res (transplant t nd (left n)) (\<lambda>t1.
                  Inr (left n, delete_node t1 nd)))
          else
            Option.bind (minimumNode t (right n)) (\<lambda>res.
              Some (bind_res res (\<lambda>sec. AVL_splice t nd sec))))"

text \<open>One round of the rebalancing loop: it yields the next \<^verbatim>\<open>cur\<close>.\<close>

definition rebalance_step :: "tree \<Rightarrow> ptr \<Rightarrow> fault + ptr \<times> tree" where
  "rebalance_step t cur =
     bind_res (updateHeight t cur) (\<lambda>t1.
     bind_res (load t1 cur) (\<lambda>cn.
     bind_res (balance t1 cur (key cn)) (\<lambda>(c, t2).
     bind_res (load t2 c) (\<lambda>cn2.
       Inr (parent cn2, if parent cn2 = None then t2\<lparr>root := c\<rparr> else t2)))))"

partial_function (option)
  rebalance_up :: "tree \<Rightarrow> ptr \<Rightarrow> (fault + tree) option"
where
  "rebalance_up t cur =
     (case cur of
        None \<Rightarrow> Some (Inr t)
      | Some a \<Rightarrow>
          (case rebalance_step t cur of
             Inl e \<Rightarrow> Some (Inl e)
           | Inr (nxt, t1) \<Rightarrow> rebalance_up t1 nxt))"

definition AVL_deleteNode :: "tree \<Rightarrow> ptr \<Rightarrow> ptr \<Rightarrow> (fault + ptr \<times> tree) option" where
  "AVL_deleteNode t r nd =
     (if nd = None then Some (Inr (r, t))
      else
        (case load t nd of
           Inl e \<Rightarrow> Some (Inl e)
         | Inr n \<Rightarrow>
             Option.bind (AVL_unlink t nd) (\<lambda>res.
               case res of
                 Inl e \<Rightarrow> Some (Inl e)
               | Inr (rebalanceStart, t1) \<Rightarrow>
                   Option.bind
                     (rebalance_up t1
                        (if rebalanceStart \<noteq> None then rebalanceStart else parent n))
                     (\<lambda>res1. Some (bind_res res1 (\<lambda>t2. Inr (root t2, t2)))))))"

definition AVL_remove :: "tree \<Rightarrow> int \<Rightarrow> (fault + tree) option" where
  "AVL_remove t k =
     Option.bind (searchNode t (root t) k) (\<lambda>res.
       case res of
         Inl e \<Rightarrow> Some (Inl e)
       | Inr nd \<Rightarrow>
           Option.bind (AVL_deleteNode t (root t) nd) (\<lambda>res1.
             Some (bind_res res1 (\<lambda>(r, t1). Inr t1))))"

section \<open>Construction from a sequence of keys\<close>

text \<open>
  \<^verbatim>\<open>operator=\<close> inserts the keys of the list in order into the tree as it is; the
  constructor does the same from the empty tree.
\<close>

fun BST_assign :: "tree \<Rightarrow> int list \<Rightarrow> (fault + tree) option" where
  "BST_assign t [] = Some (Inr t)"
| "BST_assign t (k # ks) =
     (case BST_insert t k of
        None \<Rightarrow> None
      | Some (Inl e) \<Rightarrow> Some (Inl e)
      | Some (Inr t1) \<Rightarrow> BST_assign t1 ks)"

fun AVL_assign :: "tree \<Rightarrow> int list \<Rightarrow> (fault + tree) option" where
  "AVL_assign t [] = Some (Inr t)"
| "AVL_assign t (k # ks) =
     (case AVL_insert t k of
        None \<Rightarrow> None
      | Some (Inl e) \<Rightarrow> Some (Inl e)
      | Some (Inr t1) \<Rightarrow> AVL_assign t1 ks)"

definition BST_of_list :: "int list \<Rightarrow> (fault + tree) option" where
  "BST_of_list ks = BST_assign empty_tree ks"

definition AVL_of_list :: "int list \<Rightarrow> (fault + tree) option" where
  "AVL_of_list ks = AVL_assign empty_tree ks"

section \<open>Shapes of the store\<close>

text \<open>
  \<open>tree_shape t p A\<close>: the child pointers below \<open>p\<close> form a finite tree of live nodes
  whose addresses are \<open>A\<close>. \<open>keys_of t A\<close> are the keys stored at those addresses.
\<close>

inductive tree_shape :: "tree \<Rightarrow> ptr \<Rightarrow> addr set \<Rightarrow> bool" for t :: tree where
  shape_null: "tree_shape t None {}"
| shape_node:
    "heap t a = Some n \<Longrightarrow> tree_shape t (left n) L \<Longrightarrow> tree_shape t (right n) R
       \<Longrightarrow> tree_shape t (Some a) (insert a (L \<union> R))"

code_pred tree_shape .

definition keys_of :: "tree \<Rightarrow> addr set \<Rightarrow> int set" where
  "keys_of t A = {k. \<exists>a \<in> A. \<exists>n. heap t a = Some n \<and> key n = k}"

text \<open>
  \<open>right_ascent t a\<close>: the parent links from \<open>a\<close> lead to a node without parent, and
  every node on the way is the right child of its parent. Such a node has no ancestor
  that is reached by a step from a left child.
\<close>

inductive right_ascent :: "tree \<Rightarrow> addr \<Rightarrow> bool" for t :: tree where
  ascent_top: "heap t a = Some n \<Longrightarrow> parent n = None \<Longrightarrow> right_ascent t a"
| ascent_step:
    "heap t a = Some n \<Longrightarrow> parent n = Some p \<Longrightarrow> heap t p = Some pn
       \<Longrightarrow> right pn = Some a \<Longrightarrow> right_ascent t p \<Longrightarrow> right_ascent t a"

code_pred right_ascent .

section \<open>Concrete trees\<close>

text \<open>The tree holding the single key 10.\<close>

definition single10 :: tree where
  "single10 =
     \<lparr>heap = [0 \<mapsto> \<lparr>key = 10, height = 1, left = None, right = None, parent = None\<rparr>],
      root = Some 0, fresh = 1\<rparr>"

text \<open>Key 10 at the root with 20 as its right child.\<close>

definition pair10_20 :: tree where
  "pair10_20 =
     \<lparr>heap = [0 \<mapsto> \<lparr>key = 10, height = 2, left = None, right = Some 1, parent = None\<rparr>,
              1 \<mapsto> \<lparr>key = 20, height = 1, left = None, right = None, parent = Some 0\<rparr>],
      root = Some 0, fresh = 2\<rparr>"

text \<open>The right-leaning chain 10, 20, 30 with correct cached heights.\<close>

definition chain3 :: tree where
  "chain3 =
     \<lparr>heap = [0 \<mapsto> \<lparr>key = 10, height = 3, left = None, right = Some 1, parent = None\<rparr>,
              1 \<mapsto> \<lparr>key = 20, height = 2, left = None, right = Some 2, parent = Some 0\<rparr>,
              2 \<mapsto> \<lparr>key = 30, height = 1, left = None, right = None, parent = Some 1\<rparr>],
      root = Some 0, fresh = 3\<rparr>"

text \<open>
  Key 10 at the root, 30 as its right child, 20 as the left child of 30, with correct
  cached heights: the tree on which \<^verbatim>\<open>insert(20)\<close> calls \<^verbatim>\<open>balance\<close> at the root
  after \<^verbatim>\<open>insert(10); insert(30)\<close>.
\<close>

definition zigzag3 :: tree where
  "zigzag3 =
     \<lparr>heap = [0 \<mapsto> \<lparr>key = 10, height = 3, left = None, right = Some 1, parent = None\<rparr>,
              1 \<mapsto> \<lparr>key = 30, height = 2, left = Some 2, right = None, parent = Some 0\<rparr>,
              2 \<mapsto> \<lparr>key = 20, height = 1, left = None, right = None, parent = Some 1\<rparr>],
      root = Some 0, fresh = 3\<rparr>"

text \<open>
  The mirror image of \<open>zigzag3\<close>: key 30 at the root, 10 as its left child, 20 as the
  right child of 10.
\<close>

definition zagzig3 :: tree where
  "zagzig3 =
     \<lparr>heap = [0 \<mapsto> \<lparr>key = 30, height = 3, left = Some 1, right = None, parent = None\<rparr>,
              1 \<mapsto> \<lparr>key = 10, height = 2, left = None, right = Some 2, parent = Some 0\<rparr>,
              2 \<mapsto> \<lparr>key = 20, height = 1, left = None, right = None, parent = Some 1\<rparr>],
      root = Some 0, fresh = 3\<rparr>"

text \<open>
  The store after \<^verbatim>\<open>insert\<close> of 2, 1, 3, 6, 4 into the empty AVL tree, and the store
  after \<^verbatim>\<open>remove(2)\<close> on it. In the second one the node of key 4 (address 4) has the
  node of key 6 (address 3) as its right child, and that node has the node of key 4 as
  its left child.
\<close>

definition five_keys :: tree where
  "five_keys =
     \<lparr>heap = [0 \<mapsto> \<lparr>key = 2, height = 3, left = Some 1, right = Some 3, parent = None\<rparr>,
              1 \<mapsto> \<lparr>key = 1, height = 1, left = None, right = None, parent = Some 0\<rparr>,
              2 \<mapsto> \<lparr>key = 3, height = 3, left = None, right = Some 3, parent = Some 3\<rparr>,
              3 \<mapsto> \<lparr>key = 6, height = 2, left = Some 4, right = None, parent = Some 0\<rparr>,
              4 \<mapsto> \<lparr>key = 4, height = 1, left = None, right = None, parent = Some 2\<rparr>],
      root = Some 0, fresh = 5\<rparr>"

definition cyclic4_6 :: tree where
  "cyclic4_6 =
     \<lparr>heap = [1 \<mapsto> \<lparr>key = 1, height = 1, left = None, right = None, parent = Some 4\<rparr>,
              2 \<mapsto> \<lparr>key = 3, height = 1, left = None, right = None, parent = Some 3\<rparr>,
              3 \<mapsto> \<lparr>key = 6, height = 2, left = Some 4, right = None, parent = Some 4\<rparr>,
              4 \<mapsto> \<lparr>key = 4, height = 3, left = Some 1, right = Some 3, parent = None\<rparr>],
      root = Some 4, fresh = 5\<rparr>"

section \<open>Evaluation\<close>

text \<open>The recursive equations of the partial functions are their code equations.\<close>

declare BST_insertNode.simps [code] AVL_insertNode.simps [code] searchNode.simps [code]
  minimumNode.simps [code] maximumNode.simps [code] successor_walk.simps [code]
  rebalance_up.simps [code]

lemmas store_defs = bind_res_def load_def upd_def new_node_def delete_node_def empty_tree_def

lemmas height_defs = getHeight_def getBalance_def updateHeight_def

lemmas rotate_defs = relink_parent_def rotateLeft_def rotateRight_def
  left_key_def right_key_def balance_def

lemmas insert_defs = create_at_def attach_left_def attach_right_def
  BST_insert_def AVL_insert_def BST_of_list_def AVL_of_list_def

text \<open>The concrete trees are what the public operations build.\<close>

lemma AVL_of_list_single10: "AVL_of_list [10] = Some (Inr single10)"
  by (simp add: AVL_insertNode.simps insert_defs store_defs single10_def)

lemma BST_of_list_single10: "BST_of_list [10] = Some (Inr single10)"
  by (simp add: BST_insertNode.simps insert_defs store_defs single10_def)

lemma AVL_of_list_pair10_20: "AVL_of_list [10, 20] = Some (Inr pair10_20)"
  apply (simp add: AVL_insertNode.simps insert_defs store_defs height_defs rotate_defs
      pair10_20_def)
  apply (rule ext)
  apply simp
  done

lemma AVL_of_list_chain3: "AVL_of_list [10, 20, 30] = Some (Inr chain3)"
  apply (simp add: AVL_insertNode.simps insert_defs store_defs height_defs rotate_defs
      chain3_def)
  apply (rule ext)
  apply simp
  done

lemmas remove_defs = AVL_remove_def AVL_deleteNode_def AVL_unlink_def AVL_splice_def
  transplant_def rebalance_step_def

lemma AVL_of_list_five_keys: "AVL_of_list [2, 1, 3, 6, 4] = Some (Inr five_keys)"
  apply (simp add: AVL_insertNode.simps insert_defs store_defs height_defs rotate_defs
      five_keys_def Let_def)
  apply (rule ext)
  apply simp
  done

lemma AVL_remove_five_keys: "AVL_remove five_keys 2 = Some (Inr cyclic4_6)"
  by (simp add: remove_defs rebalance_up.simps minimumNode.simps searchNode.simps
      store_defs height_defs rotate_defs five_keys_def cyclic4_6_def Let_def)

lemma pair10_20_nodes:
  "heap pair10_20 0 = Some \<lparr>key = 10, height = 2, left = None, right = Some 1, parent = None\<rparr>"
  "heap pair10_20 1 = Some \<lparr>key = 20, height = 1, left = None, right = None, parent = Some 0\<rparr>"
  "root pair10_20 = Some 0"
  by (simp_all add: pair10_20_def)

lemma pair10_20_ascent: "right_ascent pair10_20 1"
proof -
  have top: "right_ascent pair10_20 0"
    using ascent_top[OF pair10_20_nodes(1)] by simp
  show ?thesis
    using ascent_step[OF pair10_20_nodes(2) _ pair10_20_nodes(1) _ top] by simp
qed

section \<open>Rotations and rebalancing\<close>

text \<open>
  Claim C2 (rotations). The specification describes \<^verbatim>\<open>rotateLeft(z)\<close> and
  \<^verbatim>\<open>rotateRight(z)\<close> as standard rotations: the heavy child \<open>y\<close> becomes the root of
  the subtree with \<open>z\<close> as its child, the middle subtree moves under \<open>z\<close>, and the parent
  of \<open>y\<close> becomes the former parent of \<open>z\<close>. The source never assigns \<^verbatim>\<open>y->left\<close>
  (\<^verbatim>\<open>y->right\<close> in the mirror case) nor \<^verbatim>\<open>y->parent\<close>. On \<open>zigzag3\<close>, with \<open>z\<close> the
  node of key 10 and \<open>y\<close> the node of key 30, \<^verbatim>\<open>rotateLeft\<close> returns \<open>y\<close>, but the left
  child of \<open>y\<close> is still the node of key 20, the parent of \<open>y\<close> is \<open>z\<close>, and the right child
  of \<open>z\<close> is \<open>y\<close> again, because the step that updates "the parent's pointer" finds \<open>z\<close> as
  that parent. On the mirror image \<open>zagzig3\<close>, \<^verbatim>\<open>rotateRight\<close> leaves the node of key 20
  as the left child of \<open>z\<close> and makes \<open>y\<close>, of key 10, the right child of \<open>z\<close>, of key 30.
\<close>

theorem rotate_leaves_pivot_below:
  "(case rotateLeft zigzag3 (Some 0) of
      Inl e \<Rightarrow> False
    | Inr (y, t) \<Rightarrow>
        y = Some 1 \<and>
        heap t 1 = Some \<lparr>key = 30, height = 2, left = Some 2, right = None, parent = Some 0\<rparr> \<and>
        heap t 0 = Some \<lparr>key = 10, height = 3, left = None, right = Some 1, parent = Some 1\<rparr> \<and>
        heap t 2 = Some \<lparr>key = 20, height = 1, left = None, right = None, parent = Some 0\<rparr>) \<and>
   (case rotateRight zagzig3 (Some 0) of
      Inl e \<Rightarrow> False
    | Inr (y, t) \<Rightarrow>
        y = Some 1 \<and>
        heap t 1 = Some \<lparr>key = 10, height = 2, left = None, right = Some 2, parent = Some 0\<rparr> \<and>
        heap t 0 = Some \<lparr>key = 30, height = 3, left = Some 2, right = Some 1, parent = Some 1\<rparr> \<and>
        heap t 2 = Some \<lparr>key = 20, height = 1, left = None, right = None, parent = Some 0\<rparr>)"
  by (simp add: zigzag3_def zagzig3_def rotate_defs height_defs store_defs Let_def)

text \<open>
  Claim C4 (the RR case of \<^verbatim>\<open>balance\<close>). The specification: when the balance factor
  is below -1 and the key lies to the right of the right child, \<^verbatim>\<open>balance\<close> performs
  a single left rotation, and only then. The source tests \<^verbatim>\<open>key < node->right->key\<close>
  in the branch its comment calls the RR case. On \<open>chain3\<close> the root has balance factor
  -2 and the key 30 is greater than the key 20 of the right child, yet \<^verbatim>\<open>balance\<close>
  returns the root with the tree as it was. On \<open>zigzag3\<close> the key 20 is less than the key
  30 of the right child, and there \<^verbatim>\<open>balance\<close> is the single call of
  \<^verbatim>\<open>rotateLeft\<close>.
\<close>

theorem balance_RR_test_reversed:
  "getBalance chain3 (Some 0) = Inr (- 2) \<and>
   right_key chain3 (Some 0) = Inr 20 \<and>
   balance chain3 (Some 0) 30 = Inr (Some 0, chain3) \<and>
   getBalance zigzag3 (Some 0) = Inr (- 2) \<and>
   right_key zigzag3 (Some 0) = Inr 30 \<and>
   balance zigzag3 (Some 0) 20 = rotateLeft zigzag3 (Some 0)"
  by (simp add: chain3_def zigzag3_def rotate_defs height_defs store_defs Let_def)

section \<open>Sequences of insertions into the AVL tree\<close>

text \<open>
  Claim C3 (scenario 10, 20, 30). The specification expects the root to hold 20 with
  children 10 and 30 of height 1 and a root of height 2. On the code no rotation takes
  place: the root holds 10 with cached height 3, its right child holds 20 with height 2,
  and the right child of that one holds 30.
\<close>

theorem AVL_insert_10_20_30_is_chain:
  "(case AVL_of_list [10, 20, 30] of
      Some (Inr t) \<Rightarrow>
        root t = Some 0 \<and>
        heap t 0 = Some \<lparr>key = 10, height = 3, left = None, right = Some 1, parent = None\<rparr> \<and>
        heap t 1 = Some \<lparr>key = 20, height = 2, left = None, right = Some 2, parent = Some 0\<rparr> \<and>
        heap t 2 = Some \<lparr>key = 30, height = 1, left = None, right = None, parent = Some 1\<rparr>
    | _ \<Rightarrow> False)"
  by (simp add: AVL_insertNode.simps insert_defs store_defs height_defs rotate_defs)

text \<open>
  Claim C1 (invariants after every operation). After the insertions 10, 20, 30 the
  cached heights are correct and the balance factor of the root is -2, so the AVL
  balance invariant fails. After the insertions 10, 30, 20 the root pointer names the
  node of key 30, whose parent link names the node of key 10, so the root has a parent.
\<close>

theorem AVL_inserts_break_invariants:
  "(case AVL_of_list [10, 20, 30] of
      Some (Inr t) \<Rightarrow> getBalance t (root t) = Inr (- 2) \<and> getHeight t (root t) = Inr 3
    | _ \<Rightarrow> False) \<and>
   (case AVL_of_list [10, 30, 20] of
      Some (Inr t) \<Rightarrow>
        load t (root t) =
          Inr \<lparr>key = 30, height = 2, left = Some 2, right = None, parent = Some 0\<rparr>
    | _ \<Rightarrow> False)"
  by (simp add: AVL_insertNode.simps insert_defs store_defs height_defs rotate_defs Let_def)

text \<open>
  Claim C5 (membership). After the insertions 10, 30, 20 the key 10 was inserted and
  never removed, but \<^verbatim>\<open>search(10)\<close> reports it absent: the rotation at the root left
  the node of key 10 outside the tree below the new root. The keys 20 and 30 are found.
\<close>

theorem AVL_insert_10_30_20_loses_10:
  "(case AVL_of_list [10, 30, 20] of
      Some (Inr t) \<Rightarrow>
        search t 10 = Some (Inr None) \<and>
        search t 20 = Some (Inr (Some 2)) \<and>
        search t 30 = Some (Inr (Some 1))
    | _ \<Rightarrow> False)"
  by (simp add: AVL_insertNode.simps searchNode.simps search_def insert_defs store_defs
      height_defs rotate_defs Let_def)

section \<open>Duplicate insertion and removal of absent keys\<close>

text \<open>In the AVL tree, inserting the key of the root returns at once.\<close>

lemma AVL_insert_key_of_root:
  "load t (root t) = Inr n \<Longrightarrow> key n = k \<Longrightarrow> AVL_insert t k = Some (Inr t)"
  by (cases "root t")
     (simp_all add: AVL_insert_def AVL_insertNode.simps store_defs split: option.splits)

text \<open>
  Claim C6 (duplicate insert is a no-op in both classes). The plain tree has no branch
  for an equal key: \<^verbatim>\<open>BinarySearchTree::insertNode\<close> sends every key that is not less
  to the right. Inserting 10 into the tree that holds only 10 allocates a second node
  of key 10 and makes it the right child of the root.
\<close>

theorem BST_insert_duplicate_adds_node:
  "BST_of_list [10] = Some (Inr single10) \<and>
   (case BST_insert single10 10 of
      Some (Inr t) \<Rightarrow>
        heap t 0 = Some \<lparr>key = 10, height = 1, left = None, right = Some 1, parent = None\<rparr> \<and>
        heap t 1 = Some \<lparr>key = 10, height = 1, left = None, right = None, parent = Some 0\<rparr> \<and>
        t \<noteq> single10
    | _ \<Rightarrow> False)"
  apply (simp add: BST_of_list_single10)
  apply (simp add: BST_insertNode.simps insert_defs store_defs single10_def)
  done

text \<open>
  In the AVL tree the removal of a key that \<^verbatim>\<open>searchNode\<close> does not find changes
  nothing, and so does any removal from the empty plain tree.
\<close>

lemma AVL_remove_absent:
  "searchNode t (root t) k = Some (Inr None) \<Longrightarrow> AVL_remove t k = Some (Inr t)"
  by (simp add: AVL_remove_def AVL_deleteNode_def bind_res_def)

lemma BST_remove_empty: "BST_remove empty_tree k = Some (Inr empty_tree)"
  by (simp add: BST_remove_def BST_deleteNode_def searchNode.simps store_defs)

text \<open>
  Claim C7 (removing an absent key is a silent no-op in both classes).
  \<^verbatim>\<open>BinarySearchTree::deleteNode\<close> tests only whether the tree is empty before it
  reads \<^verbatim>\<open>node->left\<close>. In the plain tree that holds only 10, the key 20 is absent,
  \<^verbatim>\<open>searchNode\<close> yields the null pointer, and \<^verbatim>\<open>remove(20)\<close> dereferences it.
\<close>

theorem BST_remove_absent_key_faults:
  "BST_of_list [10] = Some (Inr single10) \<and>
   search single10 20 = Some (Inr None) \<and>
   BST_remove single10 20 = Some (Inl NullDeref)"
  by (simp add: BST_of_list_single10 search_def searchNode.simps BST_remove_def
      BST_deleteNode_def single10_def store_defs)

section \<open>Minimum, maximum and successor at the borders\<close>

text \<open>
  Claim C8 (minimum and maximum of the empty tree). \<^verbatim>\<open>minimum()\<close> and
  \<^verbatim>\<open>maximum()\<close> pass the root to loops that read \<^verbatim>\<open>node->left\<close> and
  \<^verbatim>\<open>node->right\<close> before any test. On the empty tree the root is null and both
  dereference it; neither yields an absent result.
\<close>

theorem minimum_maximum_empty_fault:
  "minimum empty_tree = Some (Inl NullDeref) \<and> maximum empty_tree = Some (Inl NullDeref)"
  by (simp add: minimum_def maximum_def minimumNode.simps maximumNode.simps store_defs)

lemma successor_walk_ascent:
  "right_ascent t a \<Longrightarrow> heap t a = Some n
     \<Longrightarrow> successor_walk t (Some a) (parent n) = Some (Inr None)"
proof (induction arbitrary: n rule: right_ascent.induct)
  case (ascent_top a m)
  then show ?case by (subst successor_walk.simps) simp
next
  case (ascent_step a m p pn)
  from ascent_step.hyps(1) ascent_step.prems have [simp]: "n = m" by simp
  show ?case
    using ascent_step.hyps ascent_step.IH[of pn]
    by (subst successor_walk.simps) (simp add: load_def)
qed

text \<open>
  Claim C9 as stated: the successor of the key of the maximum node is an absent
  result. It fails on the tree that holds only 10: node 0 is the maximum, and
  \<^verbatim>\<open>successor(10)\<close> yields node 0 itself.
\<close>

theorem successor_of_maximum_counterexample:
  "maximum single10 = Some (Inr (Some 0)) \<and>
   heap single10 0 = Some \<lparr>key = 10, height = 1, left = None, right = None, parent = None\<rparr> \<and>
   successor single10 10 = Some (Inr (Some 0)) \<and>
   successor single10 10 \<noteq> Some (Inr None)"
  by (simp add: maximum_def maximumNode.simps successor_def search_def searchNode.simps
      successorNode_def successor_walk.simps store_defs single10_def)

text \<open>
  Claim C9, amended: \<^verbatim>\<open>successorNode\<close> keeps the node it started from and returns it
  when the walk up the parent links ends at a null parent. So for every tree and every
  key whose node has no right subtree and no ancestor reached by a step from a left
  child, \<^verbatim>\<open>successor(key)\<close> returns without fault, and its result is that node
  itself, not an absent result.
\<close>

theorem successor_of_maximum:
  assumes "search t k = Some (Inr (Some a))"
    and "heap t a = Some n" and "right n = None" and "right_ascent t a"
  shows "successor t k = Some (Inr (Some a))"
  using assms(1,2,3) successor_walk_ascent[OF assms(4) assms(2)]
  by (simp add: successor_def successorNode_def load_def bind_res_def)

text \<open>
  The amended claim at the tree 10, 20: the node of key 20 is the right child of the
  root and has no right subtree; \<^verbatim>\<open>successor(20)\<close> is that node.
\<close>

theorem successor_of_maximum_witness:
  "search pair10_20 20 = Some (Inr (Some 1)) \<and>
   heap pair10_20 1 =
     Some \<lparr>key = 20, height = 1, left = None, right = None, parent = Some 0\<rparr> \<and>
   right_ascent pair10_20 1 \<and>
   successor pair10_20 20 = Some (Inr (Some 1))"
proof -
  have s: "search pair10_20 20 = Some (Inr (Some 1))"
    by (simp add: search_def searchNode.simps load_def pair10_20_def)
  have r: "right \<lparr>key = 20, height = 1, left = None, right = None, parent = Some 0\<rparr> = None"
    by simp
  show ?thesis
    using s pair10_20_nodes(2) pair10_20_ascent
      successor_of_maximum[OF s pair10_20_nodes(2) r pair10_20_ascent]
    by simp
qed

lemma searchNode_absent:
  "tree_shape t p A \<Longrightarrow> k \<notin> keys_of t A \<Longrightarrow> searchNode t p k = Some (Inr None)"
proof (induction rule: tree_shape.induct)
  case shape_null
  show ?case by (subst searchNode.simps) simp
next
  case (shape_node a n L R)
  from shape_node.prems shape_node.hyps(1) have ne: "key n \<noteq> k"
    and kl: "k \<notin> keys_of t L" and kr: "k \<notin> keys_of t R"
    by (auto simp: keys_of_def)
  show ?case
    using shape_node.hyps(1) ne shape_node.IH(1)[OF kl] shape_node.IH(2)[OF kr]
    by (subst searchNode.simps) (simp add: load_def)
qed

text \<open>
  Where the child pointers below the root form a finite tree of live nodes, the
  successor of a key that no node of it holds is the null pointer: the search ends and
  nothing faults.
\<close>

lemma successor_absent_key_tree_shape:
  assumes "tree_shape t (root t) A" and "k \<notin> keys_of t A"
  shows "successor t k = Some (Inr None)"
  using searchNode_absent[OF assms]
  by (simp add: successor_def search_def successorNode_def)

text \<open>
  The search never returns for a key strictly between the keys of two nodes that name
  each other as right child and left child.
\<close>

lemma searchNode_cycle:
  assumes "heap t a = Some na" and "heap t b = Some nb"
    and "key na < k" and "k < key nb" and "right na = Some b" and "left nb = Some a"
  shows "searchNode t (Some a) k = None"
proof -
  have main: "t' = t \<and> k' = k \<longrightarrow> p \<noteq> Some a \<and> p \<noteq> Some b"
    if sn: "searchNode t' p k' = Some y" for t' p k' y
  proof (rule searchNode.raw_induct
      [where P = "\<lambda>t' p k' y. t' = t \<and> k' = k \<longrightarrow> p \<noteq> Some a \<and> p \<noteq> Some b", OF _ sn],
      goal_cases)
    case (1 f t' p' k' y')
    have "False" if "p' = Some a" "t' = t" "k' = k"
      using that 1 assms by (auto simp: load_def)
    moreover have "False" if "p' = Some b" "t' = t" "k' = k"
      using that 1 assms by (auto simp: load_def)
    ultimately show ?case by blast
  qed
  show ?thesis
  proof (cases "searchNode t (Some a) k")
    case None
    then show ?thesis .
  next
    case (Some y)
    from main[OF Some] show ?thesis by simp
  qed
qed

lemma successor_cyclic4_6: "successor cyclic4_6 5 = None"
proof -
  have n4: "heap cyclic4_6 4 =
      Some \<lparr>key = 4, height = 3, left = Some 1, right = Some 3, parent = None\<rparr>"
    and n3: "heap cyclic4_6 3 =
      Some \<lparr>key = 6, height = 2, left = Some 4, right = None, parent = Some 4\<rparr>"
    and r: "root cyclic4_6 = Some 4"
    by (simp_all add: cyclic4_6_def)
  have "searchNode cyclic4_6 (Some 4) 5 = None"
    by (rule searchNode_cycle[OF n4 n3]) simp_all
  then show ?thesis by (simp add: successor_def search_def r)
qed

text \<open>
  Claim C10 (successor of an absent key): for every tree and every key not present in
  it, \<^verbatim>\<open>successor(key)\<close> returns the null pointer without fault and leaves the tree
  unchanged. The AVL tree built by \<^verbatim>\<open>insert\<close> of 2, 1, 3, 6, 4 and then
  \<^verbatim>\<open>remove(2)\<close>, which returns without fault, is the store \<open>cyclic4_6\<close>. No live node
  of it holds the key 5. \<^verbatim>\<open>successor(5)\<close> calls \<^verbatim>\<open>searchNode\<close>, which goes right at
  the root of key 4, left at the node of key 6, and is at the root again: the call never
  returns, so it yields no result at all.
\<close>

theorem successor_absent_key_never_returns:
  "AVL_of_list [2, 1, 3, 6, 4] = Some (Inr five_keys) \<and>
   AVL_remove five_keys 2 = Some (Inr cyclic4_6) \<and>
   5 \<notin> key ` ran (heap cyclic4_6) \<and>
   successor cyclic4_6 5 = None"
  by (simp add: AVL_of_list_five_keys AVL_remove_five_keys successor_cyclic4_6)
     (simp add: cyclic4_6_def)

end
